theory Spec2Isabelle
  imports Main "HOL-Library.Sublist"
begin

section \<open>Python strings\<close>

text \<open>
  A Python \<^verbatim>\<open>str\<close> is modelled as a \<^typ>\<open>string\<close>: the list of the bytes of its
  UTF-8 encoding, so that an ASCII character is one element and every element of a
  character outside ASCII is above 127. The string methods that \<^verbatim>\<open>doi2pdf.py\<close> and
  \<^verbatim>\<open>urllib.parse\<close> call are written out below with the results Python gives:
  \<^verbatim>\<open>find\<close>/\<^verbatim>\<open>rfind\<close> return \<open>-1\<close> when nothing is found, a slice with a negative
  bound counts from the end, \<^verbatim>\<open>partition\<close> returns the whole string and two empty
  ones when the separator is absent. All of them are called with ASCII characters to look
  for; the places where a string is cut are those of ASCII characters that
  \<^verbatim>\<open>find\<close> has found, or its first one or two, which are compared with ASCII
  characters only. So on the bytes they give the encoding of what Python gives on the
  characters.
\<close>

definition isascii :: "char \<Rightarrow> bool" where
  \<comment> \<open>\<^verbatim>\<open>c.isascii()\<close>\<close>
  "isascii c = ((of_char c :: nat) < 128)"

definition isalpha :: "char \<Rightarrow> bool" where
  \<comment> \<open>\<^verbatim>\<open>c.isascii() and c.isalpha()\<close>\<close>
  "isalpha c =
     (let n = (of_char c :: nat) in (65 \<le> n \<and> n \<le> 90) \<or> (97 \<le> n \<and> n \<le> 122))"

definition lower_char :: "char \<Rightarrow> char" where
  \<comment> \<open>\<^verbatim>\<open>c.lower()\<close> for an ASCII character\<close>
  "lower_char c =
     (let n = (of_char c :: nat) in if 65 \<le> n \<and> n \<le> 90 then char_of (n + 32) else c)"

definition lower :: "string \<Rightarrow> string" where
  \<comment> \<open>\<^verbatim>\<open>s.lower()\<close> for an ASCII string: \<open>urlsplit\<close> applies it to a scheme, all of
      whose characters are in \<open>scheme_chars\<close>\<close>
  "lower s = map lower_char s"

definition replace_char :: "char \<Rightarrow> char \<Rightarrow> string \<Rightarrow> string" where
  \<comment> \<open>\<^verbatim>\<open>s.replace(old, new)\<close> for one-character \<^verbatim>\<open>old\<close> and \<^verbatim>\<open>new\<close>\<close>
  "replace_char old new s = map (\<lambda>c. if c = old then new else c) s"

definition find_from :: "char \<Rightarrow> nat \<Rightarrow> string \<Rightarrow> int" where
  \<comment> \<open>\<^verbatim>\<open>s.find(c, start)\<close>\<close>
  "find_from c start s =
     (if c \<in> set (drop start s)
      then int (start + length (takeWhile (\<lambda>x. x \<noteq> c) (drop start s))) else - 1)"

definition rfind :: "char \<Rightarrow> string \<Rightarrow> int" where
  \<comment> \<open>\<^verbatim>\<open>s.rfind(c)\<close>\<close>
  "rfind c s =
     (if c \<in> set s
      then int (length s) - 1 - int (length (takeWhile (\<lambda>x. x \<noteq> c) (rev s))) else - 1)"

definition slice_to :: "int \<Rightarrow> string \<Rightarrow> string" where
  \<comment> \<open>\<^verbatim>\<open>s[:i]\<close>\<close>
  "slice_to i s = (if 0 \<le> i then take (nat i) s else take (nat (int (length s) + i)) s)"

definition slice_from :: "int \<Rightarrow> string \<Rightarrow> string" where
  \<comment> \<open>\<^verbatim>\<open>s[i:]\<close>\<close>
  "slice_from i s = (if 0 \<le> i then drop (nat i) s else drop (nat (int (length s) + i)) s)"

definition str_partition :: "char \<Rightarrow> string \<Rightarrow> string \<times> string \<times> string" where
  \<comment> \<open>\<^verbatim>\<open>s.partition(c)\<close>: split at the first \<^verbatim>\<open>c\<close>\<close>
  "str_partition c s =
     (if c \<in> set s
      then (takeWhile (\<lambda>x. x \<noteq> c) s, [c], tl (dropWhile (\<lambda>x. x \<noteq> c) s))
      else (s, [], []))"

definition str_rpartition :: "char \<Rightarrow> string \<Rightarrow> string \<times> string \<times> string" where
  \<comment> \<open>\<^verbatim>\<open>s.rpartition(c)\<close>: split at the last \<^verbatim>\<open>c\<close>\<close>
  "str_rpartition c s =
     (if c \<in> set s
      then (rev (tl (dropWhile (\<lambda>x. x \<noteq> c) (rev s))), [c],
            rev (takeWhile (\<lambda>x. x \<noteq> c) (rev s)))
      else ([], [], s))"

section \<open>The URL functions of the standard library\<close>

text \<open>
  \<^verbatim>\<open>doi2pdf.py\<close> imports \<^verbatim>\<open>urlparse\<close> and \<^verbatim>\<open>urlunparse\<close> from
  \<^verbatim>\<open>urllib.parse\<close>. They are written out here as CPython 3.11 has them, for
  \<^verbatim>\<open>str\<close> arguments and the default \<^verbatim>\<open>scheme=''\<close>, \<^verbatim>\<open>allow_fragments=True\<close>.
  \<open>urlsplit\<close> and \<open>urlparse\<close> below are the splitting: what the two functions return when
  they return. \<^verbatim>\<open>urlsplit\<close> also checks the netloc it has found and raises
  \<^verbatim>\<open>ValueError\<close> when the check fails; that is \<open>urlsplit_ValueError\<close> further down, and
  \<open>urlparse_py\<close> puts the two together.
\<close>

definition WHATWG_C0_CONTROL_OR_SPACE :: "char \<Rightarrow> bool" where
  \<comment> \<open>membership in the string of the characters \<^verbatim>\<open>\x00\<close> to \<^verbatim>\<open>\x20\<close>\<close>
  "WHATWG_C0_CONTROL_OR_SPACE c = ((of_char c :: nat) \<le> 32)"

definition UNSAFE_URL_BYTES_TO_REMOVE :: string where
  \<comment> \<open>tab, carriage return, line feed\<close>
  "UNSAFE_URL_BYTES_TO_REMOVE = [CHR 0x09, CHR 0x0D, CHR 0x0A]"

definition scheme_chars :: string where
  "scheme_chars = ''abcdefghijklmnopqrstuvwxyz'' @ ''ABCDEFGHIJKLMNOPQRSTUVWXYZ''
     @ ''0123456789'' @ ''+-.''"

definition uses_netloc :: "string list" where
  "uses_netloc = ['''', ''ftp'', ''http'', ''gopher'', ''nntp'', ''telnet'',
     ''imap'', ''wais'', ''file'', ''mms'', ''https'', ''shttp'',
     ''snews'', ''prospero'', ''rtsp'', ''rtsps'', ''rtspu'', ''rsync'',
     ''svn'', ''svn+ssh'', ''sftp'', ''nfs'', ''git'', ''git+ssh'',
     ''ws'', ''wss'']"

definition uses_params :: "string list" where
  "uses_params = ['''', ''ftp'', ''hdl'', ''prospero'', ''http'', ''imap'',
     ''https'', ''shttp'', ''rtsp'', ''rtsps'', ''rtspu'', ''sip'',
     ''sips'', ''mms'', ''sftp'', ''tel'']"

definition splitnetloc :: "string \<Rightarrow> nat \<Rightarrow> string \<times> string" where
  \<comment> \<open>the netloc ends at the earliest of \<^verbatim>\<open>/\<close>, \<^verbatim>\<open>?\<close>, \<^verbatim>\<open>#\<close> found from \<open>start\<close>\<close>
  "splitnetloc url start =
     (let delim = min_list (length url #
                    map (\<lambda>c. nat (find_from c start url))
                      (filter (\<lambda>c. 0 \<le> find_from c start url) ''/?#''))
      in (drop start (take delim url), drop delim url))"

definition urlsplit :: "string \<Rightarrow> string \<times> string \<times> string \<times> string \<times> string" where
  "urlsplit url0 =
     (let url1 = dropWhile WHATWG_C0_CONTROL_OR_SPACE url0;
          url2 = filter (\<lambda>c. c \<notin> set UNSAFE_URL_BYTES_TO_REMOVE) url1;
          i = find_from (CHR '':'') 0 url2;
          (scheme, url3) =
            (if 0 < i \<and> isalpha (hd url2)
                \<and> list_all (\<lambda>c. c \<in> set scheme_chars) (take (nat i) url2)
             then (lower (take (nat i) url2), drop (nat i + 1) url2)
             else ([], url2));
          (netloc, url4) =
            (if take 2 url3 = ''//'' then splitnetloc url3 2 else ([], url3));
          (url5, fragment) =
            (if CHR ''#'' \<in> set url4
             then (let (a, _, b) = str_partition (CHR ''#'') url4 in (a, b))
             else (url4, []));
          (url6, query) =
            (if CHR ''?'' \<in> set url5
             then (let (a, _, b) = str_partition (CHR ''?'') url5 in (a, b))
             else (url5, []))
      in (scheme, netloc, url6, query, fragment))"

definition splitparams :: "string \<Rightarrow> string \<times> string" where
  "splitparams url =
     (if CHR ''/'' \<in> set url
      then (let i = find_from (CHR '';'') (nat (rfind (CHR ''/'') url)) url
            in if i < 0 then (url, []) else (slice_to i url, slice_from (i + 1) url))
      else (let i = find_from (CHR '';'') 0 url
            in (slice_to i url, slice_from (i + 1) url)))"

record parse_result =
  scheme :: string
  netloc :: string
  path :: string
  params :: string
  query :: string
  fragment :: string

definition urlparse :: "string \<Rightarrow> parse_result" where
  "urlparse url0 =
     (let (scheme, netloc, url, query, fragment) = urlsplit url0;
          (url', params) =
            (if scheme \<in> set uses_params \<and> CHR '';'' \<in> set url
             then splitparams url else (url, []))
      in \<lparr>scheme = scheme, netloc = netloc, path = url', params = params,
          query = query, fragment = fragment\<rparr>)"

definition urlunsplit :: "string \<times> string \<times> string \<times> string \<times> string \<Rightarrow> string" where
  "urlunsplit c =
     (let (scheme, netloc, url, query, fragment) = c;
          url1 = (if netloc \<noteq> [] \<or> (scheme \<noteq> [] \<and> scheme \<in> set uses_netloc)
                     \<or> take 2 url = ''//''
                  then ''//'' @ netloc
                         @ (if url \<noteq> [] \<and> take 1 url \<noteq> ''/'' then ''/'' @ url else url)
                  else url);
          url2 = (if scheme \<noteq> [] then scheme @ '':'' @ url1 else url1);
          url3 = (if query \<noteq> [] then url2 @ ''?'' @ query else url2);
          url4 = (if fragment \<noteq> [] then url3 @ ''#'' @ fragment else url3)
      in url4)"

definition urlunparse ::
  "string \<times> string \<times> string \<times> string \<times> string \<times> string \<Rightarrow> string" where
  "urlunparse c =
     (let (scheme, netloc, url, params, query, fragment) = c;
          url' = (if params \<noteq> [] then url @ '';'' @ params else url)
      in urlunsplit (scheme, netloc, url', query, fragment))"

section \<open>Proxy Rewriter\<close>

text \<open>
  The string \<^verbatim>\<open>convert_to_hku_proxy\<close> returns when it returns. Its one call that can
  raise is \<^verbatim>\<open>urlparse(url)\<close>; \<open>convert_to_hku_proxy_py\<close> further down has that case.
\<close>

definition convert_to_hku_proxy :: "string \<Rightarrow> string" where
  "convert_to_hku_proxy url0 =
     (let parsed = urlparse url0;
          proxy_netloc = replace_char (CHR ''.'') (CHR ''-'') (netloc parsed)
                           @ ''.eproxy.lib.hku.hk'';
          proxied_url = urlunparse (scheme parsed, proxy_netloc, path parsed, params parsed,
                                    query parsed, fragment parsed)
      in proxied_url)"

section \<open>DOI Resolver\<close>

text \<open>
  What \<^verbatim>\<open>requests.get(resolver_url, allow_redirects=True, timeout=10)\<close> followed by
  \<^verbatim>\<open>response.raise_for_status()\<close> can do, as far as \<^verbatim>\<open>doi_to_url\<close> tells the
  cases apart: return a response (\<open>Response\<close> carries \<^verbatim>\<open>response.url\<close>), raise
  \<^verbatim>\<open>requests.HTTPError\<close> (with \<^verbatim>\<open>e.response.url\<close> when \<^verbatim>\<open>e.response\<close> is not
  \<^verbatim>\<open>None\<close>, and \<^verbatim>\<open>str(e)\<close>), or raise another \<^verbatim>\<open>requests.RequestException\<close>
  (timeout, DNS, connection; with \<^verbatim>\<open>str(e)\<close>).
\<close>

datatype http_outcome =
    Response string
  | HTTPError "string option" string
  | RequestException string

definition publisher_map :: "(string \<times> string) list" where
  "publisher_map =
     [(''pubs.acs.org'', ''ACS''),
      (''sciencedirect.com'', ''Elsevier''),
      (''link.springer.com'', ''Springer''),
      (''onlinelibrary.wiley.com'', ''Wiley''),
      (''tandfonline.com'', ''Taylor & Francis''),
      (''cambridge.org'', ''Cambridge University Press''),
      (''nature.com'', ''Nature Publishing Group''),
      (''ieee.org'', ''IEEE''),
      (''royalsocietypublishing.org'', ''Royal Society'')]"

definition dict_get :: "('k \<times> 'v) list \<Rightarrow> 'k \<Rightarrow> 'v \<Rightarrow> 'v" where
  \<comment> \<open>\<^verbatim>\<open>d.get(key, default)\<close>\<close>
  "dict_get d k dflt = (case map_of d k of Some v \<Rightarrow> v | None \<Rightarrow> dflt)"

text \<open>
  \<open>doi_to_url\<close> takes the HTTP client as a function from the requested URL to what
  happens. The inner \<open>Inl\<close> is the early \<^verbatim>\<open>return\<close> of an \<^verbatim>\<open>except\<close> branch,
  \<open>Inr\<close> the \<^verbatim>\<open>final_url\<close> with which the function goes on. The three cases of
  \<open>http_outcome\<close> are those the two \<^verbatim>\<open>except\<close> clauses of the function handle, and
  \<open>doi_to_url\<close> is what the function returns in them when \<^verbatim>\<open>urlparse\<close> accepts the
  final URL. An exception of the client that is no \<^verbatim>\<open>RequestException\<close>, and the
  \<^verbatim>\<open>ValueError\<close> of \<^verbatim>\<open>urlparse\<close>, are caught by neither clause and leave the
  function: \<open>doi_to_url_py\<close> further down has these cases as well.
\<close>

definition doi_to_url :: "(string \<Rightarrow> http_outcome) \<Rightarrow> string \<Rightarrow> string \<times> string" where
  "doi_to_url requests_get doi =
     (let resolver_url = ''https://doi.org/'' @ doi
      in case (case requests_get resolver_url of
                 Response u \<Rightarrow> Inr u
               | HTTPError resp e \<Rightarrow>
                   (case resp of
                      Some u \<Rightarrow> Inr u
                    | None \<Rightarrow> Inl (''Error resolving DOI '' @ doi @ '': '' @ e, ''Unknown''))
               | RequestException e \<Rightarrow>
                   Inl (''Error resolving DOI '' @ doi @ '': '' @ e, ''Unknown''))
         of Inl early \<Rightarrow> early
          | Inr final_url \<Rightarrow>
              (let domain = netloc (urlparse final_url);
                   publisher = dict_get publisher_map domain ''Unknown''
               in (final_url, publisher)))"

section \<open>Batch Processor\<close>

text \<open>
  Every call into the browser driver or into a user-supplied proxy function stands in a
  \<^verbatim>\<open>try\<close> with the handler \<^verbatim>\<open>except Exception as e\<close>. What the handler
  tells apart is an \<open>outcome\<close>: the call has returned, or it has raised an
  \<^verbatim>\<open>Exception\<close>, of which the handler reads \<^verbatim>\<open>str(e)\<close>, carried by \<open>Raises e\<close>.
  This section describes the loop of \<^verbatim>\<open>process_dois\<close> in terms of outcomes: what
  it does as long as every exception raised is one that the handler around it catches. The
  next section adds the exceptions that no handler catches.
\<close>

datatype 'a outcome = Returns 'a | Raises string

text \<open>
  The \<^verbatim>\<open>proxy\<close> argument of \<^verbatim>\<open>process_dois\<close>: \<^verbatim>\<open>None\<close>, a string, a callable, or
  any other object. The type parameter is what a call of the callable gives.
\<close>

datatype 'r proxy_value =
    PyNone
  | PyStr string
  | PyCallable "string \<Rightarrow> 'r"
  | PyOther

type_synonym proxy = "string outcome proxy_value"

text \<open>
  What the world answers during one iteration of the loop, as the handlers see it. Each
  iteration makes at most one call of each kind, so one answer per kind and iteration
  covers every behaviour of the HTTP client and of the driver that the handlers catch.
\<close>

record reply =
  http_reply :: "string \<Rightarrow> http_outcome"
  get_reply :: "string \<Rightarrow> unit outcome"
  find_reply :: "string \<Rightarrow> unit outcome"
  click_reply :: "unit outcome"

text \<open>The calls an iteration makes, in the order it makes them.\<close>

datatype event =
    RequestsGet string
  | DriverGet string
  | Sleep nat
  | WaitForPageLoad int
  | FindElement string
  | Click

text \<open>
  The \<^verbatim>\<open>info\<close> dictionary as it is stored into \<^verbatim>\<open>results\<close>. The keys
  \<^verbatim>\<open>proxied_url\<close> and \<^verbatim>\<open>error\<close> are absent on some paths (\<open>None\<close>).
\<close>

record info =
  doi :: string
  url :: string
  publisher :: string
  proxied_url :: "string option"
  status :: string
  actions :: "string list"
  error :: "string option"

definition is_none :: "'r proxy_value \<Rightarrow> bool" where
  \<comment> \<open>\<^verbatim>\<open>proxy is None\<close>\<close>
  "is_none px = (case px of PyNone \<Rightarrow> True | _ \<Rightarrow> False)"

definition eq_str :: "'r proxy_value \<Rightarrow> string \<Rightarrow> bool" where
  \<comment> \<open>\<^verbatim>\<open>proxy == s\<close> for a string literal \<^verbatim>\<open>s\<close>\<close>
  "eq_str px s = (case px of PyStr t \<Rightarrow> t = s | _ \<Rightarrow> False)"

definition select_proxy :: "proxy \<Rightarrow> string \<Rightarrow> string outcome" where
  \<comment> \<open>the body of the first \<^verbatim>\<open>try\<close> of the loop\<close>
  "select_proxy px u =
     (if is_none px \<or> eq_str px ''hku'' then Returns (convert_to_hku_proxy u)
      else if eq_str px ''none'' then Returns u
      else case px of
             PyCallable f \<Rightarrow> f u
           | _ \<Rightarrow> Returns (convert_to_hku_proxy u))"

text \<open>
  The publisher switch inside the second \<^verbatim>\<open>try\<close>, entered after
  \<^verbatim>\<open>driver.get\<close> has returned. For \<^verbatim>\<open>"ACS"\<close> an inner \<^verbatim>\<open>try\<close> catches what
  \<^verbatim>\<open>find_element\<close> and \<^verbatim>\<open>click\<close> raise. It returns the \<^verbatim>\<open>info\<close> and the calls
  made.
\<close>

definition publisher_switch :: "reply \<Rightarrow> info \<Rightarrow> info \<times> event list" where
  "publisher_switch w rec =
     (if publisher rec = ''ACS''
      then (case find_reply w ''article__btn__secondary--pdf'' of
              Raises e \<Rightarrow>
                (rec\<lparr>status := ''click_pdf_failed'', error := Some e\<rparr>,
                 [FindElement ''article__btn__secondary--pdf''])
            | Returns _ \<Rightarrow>
                (case click_reply w of
                   Raises e \<Rightarrow>
                     (rec\<lparr>status := ''click_pdf_failed'', error := Some e\<rparr>,
                      [FindElement ''article__btn__secondary--pdf'', Click])
                 | Returns _ \<Rightarrow>
                     (rec\<lparr>actions := actions rec @ [''clicked_pdf_button''],
                          status := ''pdf_clicked''\<rparr>,
                      [FindElement ''article__btn__secondary--pdf'', Click, Sleep 3])))
      else if publisher rec = ''Elsevier''
      then (rec\<lparr>status := ''no_action_for_publisher''\<rparr>, [])
      else (rec\<lparr>status := ''no_action_for_publisher''\<rparr>, []))"

text \<open>
  One iteration of the loop of \<^verbatim>\<open>process_dois\<close>, for the DOI \<open>d\<close>: from the value of
  \<^verbatim>\<open>first_visit\<close> it returns the \<^verbatim>\<open>info\<close> stored at \<^verbatim>\<open>results[doi]\<close>, the new
  \<^verbatim>\<open>first_visit\<close> and the calls made. \<^verbatim>\<open>_wait_for_page_load\<close> catches whatever
  its polling raises and its result is not read, so its call is one event.
\<close>

definition process_doi ::
  "reply \<Rightarrow> int \<Rightarrow> proxy \<Rightarrow> bool \<Rightarrow> string \<Rightarrow> info \<times> bool \<times> event list" where
  "process_doi w wait_time px first_visit d =
     (let (u, pub) = doi_to_url (http_reply w) d;
          ev0 = [RequestsGet (''https://doi.org/'' @ d)];
          info0 = \<lparr>doi = d, url = u, publisher = pub, proxied_url = None, status = [],
                   actions = [], error = None\<rparr>
      in if prefix ''Error'' u
         then (info0\<lparr>status := ''resolve_failed'', actions := []\<rparr>, first_visit, ev0)
         else
           (case select_proxy px u of
              Raises e \<Rightarrow>
                (info0\<lparr>status := ''proxy_error'',
                       error := Some (''proxy function error: '' @ e), actions := []\<rparr>,
                 first_visit, ev0)
            | Returns proxied \<Rightarrow>
                (let info1 = info0\<lparr>proxied_url := Some proxied, actions := []\<rparr>
                 in case get_reply w proxied of
                      Raises e \<Rightarrow>
                        (info1\<lparr>status := ''navigation_error'', error := Some e\<rparr>,
                         first_visit, ev0 @ [DriverGet proxied])
                    | Returns _ \<Rightarrow>
                        (let ev1 = ev0 @ [DriverGet proxied]
                                     @ (if first_visit then [Sleep 20]
                                        else [WaitForPageLoad wait_time]);
                             (info2, ev2) = publisher_switch w info1
                         in (info2, False, ev1 @ ev2)))))"

text \<open>
  The loop. Its state is \<^verbatim>\<open>results\<close> and \<^verbatim>\<open>first_visit\<close>; \<open>log\<close> records, for
  every iteration in order, the \<^verbatim>\<open>info\<close> it stored and the calls it made. The world
  is a sequence of replies, one per iteration: iteration \<open>i\<close> is answered by \<open>w i\<close>.
  \<open>run_batch\<close> is the run of the loop from the initial state.
\<close>

record batch =
  results :: "string \<rightharpoonup> info"
  first_visit :: bool
  log :: "(info \<times> event list) list"

fun process_dois_loop ::
  "(nat \<Rightarrow> reply) \<Rightarrow> int \<Rightarrow> proxy \<Rightarrow> string list \<Rightarrow> batch \<Rightarrow> batch" where
  "process_dois_loop w wait_time px [] st = st"
| "process_dois_loop w wait_time px (d # ds) st =
     (let (rec, fv, evs) = process_doi (w 0) wait_time px (first_visit st) d
      in process_dois_loop (\<lambda>i. w (Suc i)) wait_time px ds
           \<lparr>results = (results st)(d \<mapsto> rec), first_visit = fv,
            log = log st @ [(rec, evs)]\<rparr>)"

definition run_batch :: "(nat \<Rightarrow> reply) \<Rightarrow> string list \<Rightarrow> int \<Rightarrow> proxy \<Rightarrow> batch" where
  "run_batch w dois wait_time px =
     process_dois_loop w wait_time px dois
       \<lparr>results = Map.empty, first_visit = True, log = []\<rparr>"


section \<open>Exceptions that leave the functions\<close>

text \<open>
  The handlers of \<^verbatim>\<open>doi2pdf.py\<close> are \<^verbatim>\<open>except requests.HTTPError\<close> and
  \<^verbatim>\<open>except requests.RequestException\<close> in \<^verbatim>\<open>doi_to_url\<close>, and
  \<^verbatim>\<open>except Exception\<close> everywhere else. For the latter an exception is told apart by
  its class: an instance of \<^verbatim>\<open>Exception\<close> (\<^verbatim>\<open>ValueError\<close>,
  \<^verbatim>\<open>WebDriverException\<close>, ...), or one that is not (\<^verbatim>\<open>KeyboardInterrupt\<close>,
  \<^verbatim>\<open>SystemExit\<close>, \<^verbatim>\<open>GeneratorExit\<close>, which derive from \<^verbatim>\<open>BaseException\<close>
  only). Both carry \<^verbatim>\<open>str(e)\<close>. A call returns a value or raises an exception.
\<close>

datatype exception = Exception string | BaseException string

datatype 'a call = Returned 'a | Raised exception

definition is_Exception :: "exception \<Rightarrow> bool" where
  \<comment> \<open>\<^verbatim>\<open>isinstance(e, Exception)\<close>\<close>
  "is_Exception x = (case x of Exception _ \<Rightarrow> True | BaseException _ \<Rightarrow> False)"

text \<open>
  \<^verbatim>\<open>try: c except Exception as e: ...\<close>: the value or the caught exception goes to
  the code that follows as an \<open>outcome\<close>; an exception that is no \<^verbatim>\<open>Exception\<close>
  goes on to the caller.
\<close>

definition except_Exception :: "'a call \<Rightarrow> 'a outcome call" where
  "except_Exception c =
     (case c of
        Returned v \<Rightarrow> Returned (Returns v)
      | Raised x \<Rightarrow>
          (case x of
             Exception e \<Rightarrow> Returned (Raises e)
           | BaseException e \<Rightarrow> Raised (BaseException e)))"

subsection \<open>The \<^verbatim>\<open>ValueError\<close> of \<^verbatim>\<open>urlsplit\<close>\<close>

text \<open>
  \<^verbatim>\<open>urlsplit\<close> raises \<^verbatim>\<open>ValueError\<close> in three places, all of them checks of the
  netloc it has split off: a bracket without its partner; a bracketed host that
  \<^verbatim>\<open>_check_bracketed_host\<close> rejects; a netloc with a character outside ASCII that
  \<^verbatim>\<open>_checknetloc\<close> rejects. The first is written out. The other two consult the
  modules \<^verbatim>\<open>ipaddress\<close>, \<^verbatim>\<open>re\<close> and \<^verbatim>\<open>unicodedata\<close>; they are parameters
  here, each a function from its argument to \<open>None\<close> when it returns and to the text of
  the \<^verbatim>\<open>ValueError\<close> when it raises. Everything below holds whatever the two functions
  are.
\<close>

record stdlib =
  check_bracketed_host :: "string \<Rightarrow> string option"
  checknetloc_nonascii :: "string \<Rightarrow> string option"

definition checknetloc :: "stdlib \<Rightarrow> string \<Rightarrow> string option" where
  \<comment> \<open>\<^verbatim>\<open>_checknetloc\<close>: \<^verbatim>\<open>if not netloc or netloc.isascii(): return\<close>\<close>
  "checknetloc lib nl =
     (if nl = [] \<or> list_all isascii nl then None else checknetloc_nonascii lib nl)"

definition urlsplit_ValueError :: "stdlib \<Rightarrow> string \<Rightarrow> string option" where
  \<comment> \<open>the text of the \<^verbatim>\<open>ValueError\<close> that \<^verbatim>\<open>urlsplit(url)\<close> raises, if it raises\<close>
  "urlsplit_ValueError lib url0 =
     (let (scheme, netloc, url, query, fragment) = urlsplit url0;
          has_open = (CHR ''['' \<in> set netloc);
          has_close = (CHR '']'' \<in> set netloc)
      in if (has_open \<and> \<not> has_close) \<or> (has_close \<and> \<not> has_open)
         then Some ''Invalid IPv6 URL''
         else
           (case (if has_open \<and> has_close
                  then (let bracketed_host =
                              fst (str_partition (CHR '']'')
                                     (snd (snd (str_partition (CHR ''['') netloc))))
                        in check_bracketed_host lib bracketed_host)
                  else None)
            of Some e \<Rightarrow> Some e
             | None \<Rightarrow> checknetloc lib netloc))"

definition urlparse_py :: "stdlib \<Rightarrow> string \<Rightarrow> parse_result call" where
  \<comment> \<open>\<^verbatim>\<open>urlparse(url)\<close>: it calls \<^verbatim>\<open>urlsplit\<close> first\<close>
  "urlparse_py lib url0 =
     (case urlsplit_ValueError lib url0 of
        Some e \<Rightarrow> Raised (Exception e)
      | None \<Rightarrow> Returned (urlparse url0))"

subsection \<open>Proxy Rewriter and DOI Resolver\<close>

definition convert_to_hku_proxy_py :: "stdlib \<Rightarrow> string \<Rightarrow> string call" where
  "convert_to_hku_proxy_py lib url0 =
     (case urlparse_py lib url0 of
        Raised x \<Rightarrow> Raised x
      | Returned parsed \<Rightarrow>
          (let proxy_netloc = replace_char (CHR ''.'') (CHR ''-'') (netloc parsed)
                                @ ''.eproxy.lib.hku.hk'';
               proxied_url = urlunparse (scheme parsed, proxy_netloc, path parsed,
                                         params parsed, query parsed, fragment parsed)
           in Returned proxied_url))"

text \<open>
  The HTTP client of \<open>doi_to_url_py\<close> answers a request with \<open>Returned out\<close> when it
  returns a response or raises a \<^verbatim>\<open>RequestException\<close>, as \<open>out\<close> says, and with
  \<open>Raised x\<close> when it raises an exception \<open>x\<close> that is no \<^verbatim>\<open>RequestException\<close>. Neither
  \<^verbatim>\<open>except\<close> clause catches \<open>x\<close>, and \<^verbatim>\<open>urlparse(final_url)\<close> stands outside the
  \<^verbatim>\<open>try\<close>.
\<close>

definition doi_to_url_py ::
  "stdlib \<Rightarrow> (string \<Rightarrow> http_outcome call) \<Rightarrow> string \<Rightarrow> (string \<times> string) call" where
  "doi_to_url_py lib requests_get d =
     (let resolver_url = ''https://doi.org/'' @ d
      in case requests_get resolver_url of
           Raised x \<Rightarrow> Raised x
         | Returned out \<Rightarrow>
             (case (case out of
                      Response u \<Rightarrow> Inr u
                    | HTTPError resp e \<Rightarrow>
                        (case resp of
                           Some u \<Rightarrow> Inr u
                         | None \<Rightarrow>
                             Inl (''Error resolving DOI '' @ d @ '': '' @ e, ''Unknown''))
                    | RequestException e \<Rightarrow>
                        Inl (''Error resolving DOI '' @ d @ '': '' @ e, ''Unknown''))
              of Inl early \<Rightarrow> Returned early
               | Inr final_url \<Rightarrow>
                   (case urlparse_py lib final_url of
                      Raised x \<Rightarrow> Raised x
                    | Returned parsed \<Rightarrow>
                        (let domain = netloc parsed;
                             publisher = dict_get publisher_map domain ''Unknown''
                         in Returned (final_url, publisher)))))"

subsection \<open>Batch Processor\<close>

text \<open>
  What the world does during one iteration of the loop: as \<open>reply\<close>, with the exception
  raised in place of its text. \<^verbatim>\<open>time.sleep\<close> raises no \<^verbatim>\<open>Exception\<close>, and neither
  does \<^verbatim>\<open>_wait_for_page_load\<close>, which catches what its polling raises. An exception
  that is no \<^verbatim>\<open>Exception\<close> goes through them, such as the \<^verbatim>\<open>KeyboardInterrupt\<close> of
  an interrupt that arrives while they run: \<open>pause_interrupted\<close> is its text when that
  happens in the pause after the navigation (\<^verbatim>\<open>time.sleep(20)\<close> on the first visit,
  \<^verbatim>\<open>_wait_for_page_load\<close> later), \<open>sleep_interrupted\<close> when it happens in the
  \<^verbatim>\<open>time.sleep(3)\<close> after the click, and \<open>None\<close> when they return.
\<close>

record world =
  http_call :: "string \<Rightarrow> http_outcome call"
  get_call :: "string \<Rightarrow> unit call"
  pause_interrupted :: "string option"
  find_call :: "string \<Rightarrow> unit call"
  click_call :: "unit call"
  sleep_interrupted :: "string option"

definition select_proxy_py :: "stdlib \<Rightarrow> string call proxy_value \<Rightarrow> string \<Rightarrow> string call" where
  \<comment> \<open>the body of the first \<^verbatim>\<open>try\<close> of the loop\<close>
  "select_proxy_py lib px u =
     (if is_none px \<or> eq_str px ''hku'' then convert_to_hku_proxy_py lib u
      else if eq_str px ''none'' then Returned u
      else case px of
             PyCallable f \<Rightarrow> f u
           | _ \<Rightarrow> convert_to_hku_proxy_py lib u)"

text \<open>
  The publisher switch. The \<^verbatim>\<open>except Exception\<close> of the inner \<^verbatim>\<open>try\<close> and that of
  the \<^verbatim>\<open>try\<close> around it both let an exception that is no \<^verbatim>\<open>Exception\<close> through,
  be it raised by \<^verbatim>\<open>find_element\<close>, by \<^verbatim>\<open>click\<close> or during \<^verbatim>\<open>time.sleep(3)\<close>.
\<close>

definition publisher_switch_py :: "world \<Rightarrow> info \<Rightarrow> (info \<times> event list) call" where
  "publisher_switch_py w rec =
     (if publisher rec = ''ACS''
      then (case except_Exception (find_call w ''article__btn__secondary--pdf'') of
              Raised x \<Rightarrow> Raised x
            | Returned found \<Rightarrow>
                (case found of
                   Raises e \<Rightarrow>
                     Returned (rec\<lparr>status := ''click_pdf_failed'', error := Some e\<rparr>,
                               [FindElement ''article__btn__secondary--pdf''])
                 | Returns _ \<Rightarrow>
                     (case except_Exception (click_call w) of
                        Raised x \<Rightarrow> Raised x
                      | Returned clicked \<Rightarrow>
                          (case clicked of
                             Raises e \<Rightarrow>
                               Returned (rec\<lparr>status := ''click_pdf_failed'', error := Some e\<rparr>,
                                         [FindElement ''article__btn__secondary--pdf'', Click])
                           | Returns _ \<Rightarrow>
                               (case sleep_interrupted w of
                                  Some e \<Rightarrow> Raised (BaseException e)
                                | None \<Rightarrow>
                                    Returned (rec\<lparr>actions := actions rec @ [''clicked_pdf_button''],
                                                  status := ''pdf_clicked''\<rparr>,
                                              [FindElement ''article__btn__secondary--pdf'', Click,
                                               Sleep 3]))))))
      else if publisher rec = ''Elsevier''
      then Returned (rec\<lparr>status := ''no_action_for_publisher''\<rparr>, [])
      else Returned (rec\<lparr>status := ''no_action_for_publisher''\<rparr>, []))"

text \<open>
  One iteration of the loop, \<open>visit\<close> being the value of \<^verbatim>\<open>first_visit\<close>.
  \<^verbatim>\<open>doi_to_url(doi)\<close> is called outside every \<^verbatim>\<open>try\<close>: what it raises leaves the
  iteration, and with it \<^verbatim>\<open>process_dois\<close>.
\<close>

definition process_doi_py ::
  "stdlib \<Rightarrow> world \<Rightarrow> int \<Rightarrow> string call proxy_value \<Rightarrow> bool \<Rightarrow> string
     \<Rightarrow> (info \<times> bool \<times> event list) call" where
  "process_doi_py lib w wait_time px visit d =
     (case doi_to_url_py lib (http_call w) d of
        Raised x \<Rightarrow> Raised x
      | Returned resolved \<Rightarrow>
          (let (u, pub) = resolved;
               ev0 = [RequestsGet (''https://doi.org/'' @ d)];
               info0 = \<lparr>doi = d, url = u, publisher = pub, proxied_url = None, status = [],
                        actions = [], error = None\<rparr>
           in if prefix ''Error'' u
              then Returned (info0\<lparr>status := ''resolve_failed'', actions := []\<rparr>,
                             visit, ev0)
              else
                (case except_Exception (select_proxy_py lib px u) of
                   Raised x \<Rightarrow> Raised x
                 | Returned selected \<Rightarrow>
                     (case selected of
                        Raises e \<Rightarrow>
                          Returned (info0\<lparr>status := ''proxy_error'',
                                          error := Some (''proxy function error: '' @ e),
                                          actions := []\<rparr>,
                                    visit, ev0)
                      | Returns proxied \<Rightarrow>
                          (let info1 = info0\<lparr>proxied_url := Some proxied, actions := []\<rparr>
                           in case except_Exception (get_call w proxied) of
                                Raised x \<Rightarrow> Raised x
                              | Returned navigated \<Rightarrow>
                                  (case navigated of
                                     Raises e \<Rightarrow>
                                       Returned (info1\<lparr>status := ''navigation_error'',
                                                       error := Some e\<rparr>,
                                                 visit, ev0 @ [DriverGet proxied])
                                   | Returns _ \<Rightarrow>
                                       (case pause_interrupted w of
                                          Some e \<Rightarrow> Raised (BaseException e)
                                        | None \<Rightarrow>
                                            (let ev1 = ev0 @ [DriverGet proxied]
                                                         @ (if visit then [Sleep 20]
                                                            else [WaitForPageLoad wait_time])
                                             in case publisher_switch_py w info1 of
                                                  Raised x \<Rightarrow> Raised x
                                                | Returned sw \<Rightarrow>
                                                    Returned (fst sw, False,
                                                              ev1 @ snd sw)))))))))"

text \<open>
  The loop and \<^verbatim>\<open>process_dois\<close>. An exception that leaves an iteration ends the loop:
  the DOIs after it are not processed and no mapping is returned.
\<close>

fun process_dois_loop_py ::
  "stdlib \<Rightarrow> (nat \<Rightarrow> world) \<Rightarrow> int \<Rightarrow> string call proxy_value \<Rightarrow> string list \<Rightarrow> batch
     \<Rightarrow> batch call" where
  "process_dois_loop_py lib w wait_time px [] st = Returned st"
| "process_dois_loop_py lib w wait_time px (d # ds) st =
     (case process_doi_py lib (w 0) wait_time px (first_visit st) d of
        Raised x \<Rightarrow> Raised x
      | Returned it \<Rightarrow>
          process_dois_loop_py lib (\<lambda>i. w (Suc i)) wait_time px ds
            \<lparr>results = (results st)(d \<mapsto> fst it), first_visit = fst (snd it),
             log = log st @ [(fst it, snd (snd it))]\<rparr>)"

definition run_batch_py ::
  "stdlib \<Rightarrow> (nat \<Rightarrow> world) \<Rightarrow> string list \<Rightarrow> int \<Rightarrow> string call proxy_value \<Rightarrow> batch call" where
  "run_batch_py lib w dois wait_time px =
     process_dois_loop_py lib w wait_time px dois
       \<lparr>results = Map.empty, first_visit = True, log = []\<rparr>"

definition process_dois ::
  "stdlib \<Rightarrow> (nat \<Rightarrow> world) \<Rightarrow> string list \<Rightarrow> int \<Rightarrow> string call proxy_value
     \<Rightarrow> (string \<rightharpoonup> info) call" where
  "process_dois lib w dois wait_time px =
     (case run_batch_py lib w dois wait_time px of
        Raised x \<Rightarrow> Raised x
      | Returned st \<Rightarrow> Returned (results st))"

section \<open>Downloader Facade\<close>

text \<open>
  The fields of \<^verbatim>\<open>DOI2PDFDownloader\<close> that its methods read: the queue, the proxy
  style, the headless flag, and whether \<^verbatim>\<open>self._driver\<close> is truthy.
\<close>

record downloader =
  queue :: "string list"
  proxy_method :: "string call proxy_value"
  headless :: bool
  driver :: bool

text \<open>The argument of \<^verbatim>\<open>add_dois\<close>: a string or a list of strings.\<close>

datatype dois_arg = OneStr string | StrList "string list"

definition add_dois :: "downloader \<Rightarrow> dois_arg \<Rightarrow> downloader" where
  "add_dois self dois =
     (case dois of
        OneStr s \<Rightarrow> self\<lparr>queue := queue self @ [s]\<rparr>
      | StrList xs \<Rightarrow> self\<lparr>queue := queue self @ xs\<rparr>)"

definition start_download_sync ::
  "stdlib \<Rightarrow> downloader \<Rightarrow> (nat \<Rightarrow> world) \<Rightarrow> int \<Rightarrow> ((string \<rightharpoonup> info) \<times> downloader) call" where
  \<comment> \<open>\<^verbatim>\<open>process_dois\<close> is called without \<^verbatim>\<open>proxy\<close>, which defaults to \<^verbatim>\<open>None\<close>\<close>
  "start_download_sync lib self w wait_time =
     (case process_dois lib w (queue self) wait_time PyNone of
        Raised x \<Rightarrow> Raised x
      | Returned res \<Rightarrow> Returned (res, self\<lparr>queue := []\<rparr>))"

definition start_download_async :: "downloader \<Rightarrow> unit call" where
  \<comment> \<open>\<^verbatim>\<open>NotImplementedError\<close> is an \<^verbatim>\<open>Exception\<close>\<close>
  "start_download_async self = Raised (Exception ''Asynchronous start is not implemented yet.'')"

text \<open>
  \<open>close\<close> takes what \<^verbatim>\<open>self._driver.quit()\<close> does when it is called, and returns
  what \<open>close\<close> itself does (return or raise), the facade after the call, and the number
  of calls of \<^verbatim>\<open>quit\<close> made. The handler is \<^verbatim>\<open>except Exception: pass\<close>.
\<close>

definition close :: "downloader \<Rightarrow> unit call \<Rightarrow> unit call \<times> downloader \<times> nat" where
  "close self quit_call =
     (if driver self
      then (case except_Exception quit_call of
              Raised x \<Rightarrow> (Raised x, self, 1)
            | Returned _ \<Rightarrow> (Returned (), self, 1))
      else (Returned (), self, 0))"

text \<open>
  Calling \<open>close\<close> once per element of a list of answers of \<^verbatim>\<open>quit\<close>, each call on
  the facade the call before has left; the results of the calls in order.
\<close>

fun close_repeatedly ::
  "downloader \<Rightarrow> unit call list \<Rightarrow> unit call list \<times> downloader" where
  "close_repeatedly self [] = ([], self)"
| "close_repeatedly self (q # qs) =
     (let (r, self', _) = close self q;
          (rs, self'') = close_repeatedly self' qs
      in (r # rs, self''))"

section \<open>Notions used to state the properties\<close>




text \<open>
  Three worlds for the examples: one where every DOI resolves to an ACS page and every
  driver call returns, one where the HTTP request times out, and one where the PDF
  button is not found and the exception has an empty text.
\<close>

definition reply_acs :: reply where
  "reply_acs = \<lparr>http_reply = (\<lambda>u. Response (''https://pubs.acs.org/doi/'' @ drop 16 u)),
                get_reply = (\<lambda>_. Returns ()), find_reply = (\<lambda>_. Returns ()),
                click_reply = Returns ()\<rparr>"



text \<open>
  The same for worlds with exceptions: every DOI resolves to an ACS page and every call
  returns; the HTTP request times out; and the library checks of \<^verbatim>\<open>urlsplit\<close> taken
  to accept everything they are asked.
\<close>

definition world_acs :: world where
  "world_acs = \<lparr>http_call = (\<lambda>u. Returned (Response (''https://pubs.acs.org/doi/'' @ drop 16 u))),
                get_call = (\<lambda>_. Returned ()), pause_interrupted = None,
                find_call = (\<lambda>_. Returned ()), click_call = Returned (),
                sleep_interrupted = None\<rparr>"


definition lenient :: stdlib where
  "lenient = \<lparr>check_bracketed_host = (\<lambda>_. None), checknetloc_nonascii = (\<lambda>_. None)\<rparr>"

text \<open>
  The failures of an iteration are caught when no exception leaves it: the resolver
  returns (the HTTP client raises nothing but a \<^verbatim>\<open>RequestException\<close>, and
  \<^verbatim>\<open>urlparse\<close> accepts the final URL), of the calls that the iteration goes on to
  make (the proxy transformation, \<^verbatim>\<open>driver.get\<close>, \<^verbatim>\<open>find_element\<close>,
  \<^verbatim>\<open>click\<close>) each returns or raises an \<^verbatim>\<open>Exception\<close>, and the pause and the
  sleep it comes to are not interrupted.
\<close>

definition failures_caught :: "stdlib \<Rightarrow> world \<Rightarrow> string call proxy_value \<Rightarrow> string \<Rightarrow> bool" where
  "failures_caught lib r px d =
     (case doi_to_url_py lib (http_call r) d of
        Raised _ \<Rightarrow> False
      | Returned resolved \<Rightarrow>
          (if prefix ''Error'' (fst resolved) then True
           else case select_proxy_py lib px (fst resolved) of
                  Raised x \<Rightarrow> is_Exception x
                | Returned proxied \<Rightarrow>
                    (case get_call r proxied of
                       Raised x \<Rightarrow> is_Exception x
                     | Returned _ \<Rightarrow>
                         (if pause_interrupted r \<noteq> None then False
                          else if snd resolved = ''ACS''
                          then (case find_call r ''article__btn__secondary--pdf'' of
                                  Raised x \<Rightarrow> is_Exception x
                                | Returned _ \<Rightarrow>
                                    (case click_call r of
                                       Raised x \<Rightarrow> is_Exception x
                                     | Returned _ \<Rightarrow> sleep_interrupted r = None))
                          else True))))"

text \<open>
  What the handlers see of a call, of a world and of a proxy argument. At an exception
  that no handler catches the value is its text; it is read only where
  \<open>failures_caught\<close> holds.
\<close>

definition caught :: "'a call \<Rightarrow> 'a outcome" where
  "caught c =
     (case c of
        Returned v \<Rightarrow> Returns v
      | Raised x \<Rightarrow> (case x of Exception e \<Rightarrow> Raises e | BaseException e \<Rightarrow> Raises e))"

definition reply_of :: "world \<Rightarrow> reply" where
  "reply_of w =
     \<lparr>http_reply = (\<lambda>u. case http_call w u of
                          Returned out \<Rightarrow> out
                        | Raised x \<Rightarrow>
                            (case x of Exception e \<Rightarrow> RequestException e
                                     | BaseException e \<Rightarrow> RequestException e)),
      get_reply = (\<lambda>p. caught (get_call w p)),
      find_reply = (\<lambda>c. caught (find_call w c)),
      click_reply = caught (click_call w)\<rparr>"

definition proxy_of :: "string call proxy_value \<Rightarrow> proxy" where
  "proxy_of px =
     (case px of
        PyNone \<Rightarrow> PyNone
      | PyStr s \<Rightarrow> PyStr s
      | PyCallable f \<Rightarrow> PyCallable (\<lambda>u. caught (f u))
      | PyOther \<Rightarrow> PyOther)"





section \<open>Properties of the Proxy Rewriter\<close>

text \<open>
  A URL whose netloc has no bracket and no character outside ASCII passes the checks of
  \<^verbatim>\<open>urlsplit\<close>, whatever the library functions are; on a URL that \<^verbatim>\<open>urlsplit\<close>
  accepts, \<open>convert_to_hku_proxy_py\<close> returns what \<open>convert_to_hku_proxy\<close> gives, and
  on one with a bracket that is not closed it raises the \<^verbatim>\<open>ValueError\<close>.
\<close>

lemma urlsplit_ValueError_plain:
  assumes "CHR ''['' \<notin> set (fst (snd (urlsplit u)))" and "CHR '']'' \<notin> set (fst (snd (urlsplit u)))"
    and "list_all isascii (fst (snd (urlsplit u)))"
  shows "urlsplit_ValueError lib u = None"
  using assms by (simp add: urlsplit_ValueError_def checknetloc_def case_prod_beta)

lemma urlparse_py_plain:
  assumes "CHR ''['' \<notin> set (netloc (urlparse u))" and "CHR '']'' \<notin> set (netloc (urlparse u))"
    and "list_all isascii (netloc (urlparse u))"
  shows "urlparse_py lib u = Returned (urlparse u)"
proof -
  have "netloc (urlparse u) = fst (snd (urlsplit u))"
    by (simp add: urlparse_def case_prod_beta Let_def)
  with assms show ?thesis
    by (simp add: urlparse_py_def urlsplit_ValueError_plain)
qed

lemma convert_to_hku_proxy_py_accepted:
  assumes "urlsplit_ValueError lib u = None"
  shows "convert_to_hku_proxy_py lib u = Returned (convert_to_hku_proxy u)"
  using assms
  by (simp add: convert_to_hku_proxy_py_def convert_to_hku_proxy_def urlparse_py_def Let_def)

lemma convert_to_hku_proxy_py_raises:
  "convert_to_hku_proxy_py lib ''http://[::1/a'' = Raised (Exception ''Invalid IPv6 URL'')"
proof -
  have "urlsplit ''http://[::1/a'' = (''http'', ''[::1'', ''/a'', [], [])"
    by code_simp
  then have "urlsplit_ValueError lib ''http://[::1/a'' = Some ''Invalid IPv6 URL''"
    by (simp add: urlsplit_ValueError_def)
  then show ?thesis
    by (simp add: convert_to_hku_proxy_py_def urlparse_py_def)
qed

text \<open>
  C2. The claim has the hostname of the result be the hostname of the input with every
  \<^verbatim>\<open>.\<close> replaced by \<^verbatim>\<open>-\<close>, followed by \<^verbatim>\<open>.eproxy.lib.hku.hk\<close>, and so has the
  comment in the code (\<^verbatim>\<open>Replace dots in the domain with dashes, then append HKU proxy
  suffix\<close>). The code rewrites \<^verbatim>\<open>parsed.netloc\<close>. For
  \<^verbatim>\<open>https://example.com:8080/a\<close> it returns
  \<^verbatim>\<open>https://example-com:8080.eproxy.lib.hku.hk/a\<close>: the suffix stands after the
  port, so that the host of the result is \<^verbatim>\<open>example-com\<close> and the proxy domain is no
  part of it. On the example of the docstring, which has no port, the result is the one
  the docstring gives.
\<close>

theorem convert_to_hku_proxy_port:
  "convert_to_hku_proxy_py lib ''https://example.com:8080/a''
     = Returned ''https://example-com:8080.eproxy.lib.hku.hk/a''
   \<and> netloc (urlparse ''https://example-com:8080.eproxy.lib.hku.hk/a'')
       = ''example-com:8080.eproxy.lib.hku.hk''
   \<and> convert_to_hku_proxy_py lib ''https://pubs.acs.org/doi/10.1021/acscatal.9b05338''
       = Returned ''https://pubs-acs-org.eproxy.lib.hku.hk/doi/10.1021/acscatal.9b05338''"
proof -
  have n1: "netloc (urlparse ''https://example.com:8080/a'') = ''example.com:8080''"
    by code_simp
  have a1: "list_all isascii ''example.com:8080''" by code_simp
  have p1: "urlsplit_ValueError lib ''https://example.com:8080/a'' = None"
    using urlparse_py_plain [of "''https://example.com:8080/a''" lib] a1
    by (simp add: n1 urlparse_py_def split: option.splits)
  have c1: "convert_to_hku_proxy ''https://example.com:8080/a''
     = ''https://example-com:8080.eproxy.lib.hku.hk/a''"
    by code_simp
  have n2: "netloc (urlparse ''https://pubs.acs.org/doi/10.1021/acscatal.9b05338'') = ''pubs.acs.org''"
    by code_simp
  have a2: "list_all isascii ''pubs.acs.org''" by code_simp
  have p2: "urlsplit_ValueError lib ''https://pubs.acs.org/doi/10.1021/acscatal.9b05338'' = None"
    using urlparse_py_plain [of "''https://pubs.acs.org/doi/10.1021/acscatal.9b05338''" lib] a2
    by (simp add: n2 urlparse_py_def split: option.splits)
  have c2: "convert_to_hku_proxy ''https://pubs.acs.org/doi/10.1021/acscatal.9b05338''
     = ''https://pubs-acs-org.eproxy.lib.hku.hk/doi/10.1021/acscatal.9b05338''"
    by code_simp
  have n3: "netloc (urlparse ''https://example-com:8080.eproxy.lib.hku.hk/a'')
       = ''example-com:8080.eproxy.lib.hku.hk''"
    by code_simp
  show ?thesis
    by (simp only: convert_to_hku_proxy_py_accepted [OF p1] convert_to_hku_proxy_py_accepted [OF p2]
          c1 c2 n3 simp_thms)
qed

section \<open>Properties of the facade\<close>

text \<open>
  C10. \<open>add_dois\<close> tells a string from a list: a string is appended to the queue as
  one entry (the queue grows by exactly one, the string is not taken apart into its
  characters), a list is appended element by element in its order, and in both cases the
  entries already queued stay where they were.
\<close>

theorem add_dois_string_or_list:
  "queue (add_dois self (OneStr s)) = queue self @ [s]
   \<and> length (queue (add_dois self (OneStr s))) = Suc (length (queue self))
   \<and> queue (add_dois self (StrList xs)) = queue self @ xs
   \<and> take (length (queue self)) (queue (add_dois self a)) = queue self"
  by (cases a) (simp_all add: add_dois_def)

lemma close_cases:
  "close self q =
     (if driver self
      then (case q of
              Returned _ \<Rightarrow> (Returned (), self, 1)
            | Raised x \<Rightarrow>
                (case x of Exception e \<Rightarrow> (Returned (), self, 1)
                         | BaseException e \<Rightarrow> (Raised (BaseException e), self, 1)))
      else (Returned (), self, 0))"
  by (simp add: close_def except_Exception_def split: call.splits exception.splits)

lemma close_repeatedly_facade: "snd (close_repeatedly self qs) = self"
  by (induction qs) (simp_all add: close_cases case_prod_beta split: call.splits exception.splits)

lemma close_repeatedly_caught:
  assumes "\<forall>q\<in>set qs. \<forall>e. q \<noteq> Raised (BaseException e)"
  shows "close_repeatedly self qs = (replicate (length qs) (Returned ()), self)"
  using assms
proof (induction qs)
  case Nil
  then show ?case by simp
next
  case (Cons q qs)
  from Cons.prems have q: "\<forall>e. q \<noteq> Raised (BaseException e)" by simp
  then have "close self q = (Returned (), self, if driver self then 1 else 0)"
    by (auto simp: close_cases split: call.splits exception.splits)
  with Cons show ?case by simp
qed

text \<open>
  C9, as amended. \<open>close\<close> never lets an \<^verbatim>\<open>Exception\<close> of \<^verbatim>\<open>quit\<close> through: a
  call of \<open>close\<close> returns unless there is a driver and \<^verbatim>\<open>quit\<close> raises an exception
  that is no \<^verbatim>\<open>Exception\<close>, which then leaves \<open>close\<close>; it leaves the facade as it
  was and calls \<^verbatim>\<open>quit\<close> once when there is a driver. So in a sequence of calls of any
  length in which \<^verbatim>\<open>quit\<close> returns or raises an \<^verbatim>\<open>Exception\<close> each time, every
  call returns, and a second call finds what the first one found.
\<close>

theorem close_catches_Exception:
  "(fst (close self q) = Returned () \<longleftrightarrow> \<not> (driver self \<and> (\<exists>e. q = Raised (BaseException e))))
   \<and> (\<forall>e. driver self \<and> q = Raised (BaseException e) \<longrightarrow>
         fst (close self q) = Raised (BaseException e))
   \<and> fst (snd (close self q)) = self
   \<and> snd (snd (close self q)) = (if driver self then 1 else 0)
   \<and> ((\<forall>c\<in>set qs. \<forall>e. c \<noteq> Raised (BaseException e)) \<longrightarrow>
         fst (close_repeatedly self qs) = replicate (length qs) (Returned ()))
   \<and> snd (close_repeatedly self qs) = self"
  by (auto simp: close_cases close_repeatedly_caught close_repeatedly_facade
        split: call.splits exception.splits)

theorem close_catches_Exception_twice:
  "close_repeatedly
     \<lparr>queue = [], proxy_method = PyStr ''hku'', headless = False, driver = True\<rparr>
     [Raised (Exception ''session deleted''), Raised (Exception ''session deleted'')]
   = ([Returned (), Returned ()],
      \<lparr>queue = [], proxy_method = PyStr ''hku'', headless = False, driver = True\<rparr>)"
proof -
  note th = close_catches_Exception
    [of "\<lparr>queue = [], proxy_method = PyStr ''hku'', headless = False, driver = True\<rparr>"
        "Returned ()" "[Raised (Exception ''session deleted''), Raised (Exception ''session deleted'')]"]
  have "\<forall>c\<in>set [Raised (Exception ''session deleted''), Raised (Exception ''session deleted'') :: unit call].
          \<forall>e. c \<noteq> Raised (BaseException e)"
    by simp
  with th have "fst (close_repeatedly
     \<lparr>queue = [], proxy_method = PyStr ''hku'', headless = False, driver = True\<rparr>
     [Raised (Exception ''session deleted''), Raised (Exception ''session deleted'')])
       = replicate (length [Raised (Exception ''session deleted''), Raised (Exception ''session deleted'') :: unit call]) (Returned ())"
    by blast
  moreover from th have "snd (close_repeatedly
     \<lparr>queue = [], proxy_method = PyStr ''hku'', headless = False, driver = True\<rparr>
     [Raised (Exception ''session deleted''), Raised (Exception ''session deleted'')])
       = \<lparr>queue = [], proxy_method = PyStr ''hku'', headless = False, driver = True\<rparr>"
    by blast
  ultimately show ?thesis by (simp add: prod_eq_iff)
qed

text \<open>
  The claim as stated has \<open>close\<close> never raise, whatever the teardown does. A
  \<^verbatim>\<open>KeyboardInterrupt\<close> raised in \<^verbatim>\<open>quit\<close> is not caught by
  \<^verbatim>\<open>except Exception\<close> and leaves \<open>close\<close>.
\<close>

theorem close_interrupted:
  "fst (close \<lparr>queue = [], proxy_method = PyStr ''hku'', headless = False, driver = True\<rparr>
          (Raised (BaseException [])))
     = Raised (BaseException [])"
  by (simp add: close_def except_Exception_def)

section \<open>Properties of the DOI Resolver\<close>



section \<open>Properties of the DOI Resolver: the publisher label\<close>

text \<open>
  The publisher label is the value of the table at the netloc of the final URL, and
  \<^verbatim>\<open>"Unknown"\<close> when the netloc is no key of it, for the URL of a successful response
  and for the URL of the response an \<^verbatim>\<open>HTTPError\<close> carries alike.
\<close>

lemma doi_to_url_lookup:
  assumes "requests_get (''https://doi.org/'' @ d) = Response u
           \<or> requests_get (''https://doi.org/'' @ d) = HTTPError (Some u) e"
  shows "doi_to_url requests_get d
           = (u, dict_get publisher_map (netloc (urlparse u)) ''Unknown'')"
  using assms by (auto simp: doi_to_url_def Let_def)

lemma doi_to_url_py_lookup:
  assumes "requests_get (''https://doi.org/'' @ d) = Returned (Response u)
           \<or> requests_get (''https://doi.org/'' @ d) = Returned (HTTPError (Some u) e)"
    and "urlsplit_ValueError lib u = None"
  shows "doi_to_url_py lib requests_get d
           = Returned (u, dict_get publisher_map (netloc (urlparse u)) ''Unknown'')"
  using assms by (auto simp: doi_to_url_py_def urlparse_py_def Let_def)

text \<open>
  C3. The claim has the label determined by the hostname of the final URL, and so has
  the comment in the code (\<^verbatim>\<open>Extract domain and map to publisher\<close>, for the variable
  \<^verbatim>\<open>domain\<close>). The code looks up \<^verbatim>\<open>urlparse(final_url).netloc\<close>. The final URL
  \<^verbatim>\<open>https://pubs.acs.org:443/doi/10.1021/a\<close> has the host \<^verbatim>\<open>pubs.acs.org\<close>; its
  netloc is \<^verbatim>\<open>pubs.acs.org:443\<close>, which is no key of the table, and the label is
  \<^verbatim>\<open>"Unknown"\<close>. Without the port the same host is labelled \<^verbatim>\<open>"ACS"\<close>.
\<close>

theorem doi_to_url_port:
  "doi_to_url_py lib (\<lambda>_. Returned (Response ''https://pubs.acs.org:443/doi/10.1021/a'')) ''10.1021/a''
     = Returned (''https://pubs.acs.org:443/doi/10.1021/a'', ''Unknown'')
   \<and> netloc (urlparse ''https://pubs.acs.org:443/doi/10.1021/a'') = ''pubs.acs.org:443''
   \<and> doi_to_url_py lib (\<lambda>_. Returned (Response ''https://pubs.acs.org/doi/10.1021/a'')) ''10.1021/a''
       = Returned (''https://pubs.acs.org/doi/10.1021/a'', ''ACS'')"
proof -
  have n1: "netloc (urlparse ''https://pubs.acs.org:443/doi/10.1021/a'') = ''pubs.acs.org:443''"
    by code_simp
  have a1: "list_all isascii ''pubs.acs.org:443''" by code_simp
  have p1: "urlsplit_ValueError lib ''https://pubs.acs.org:443/doi/10.1021/a'' = None"
    using urlparse_py_plain [of "''https://pubs.acs.org:443/doi/10.1021/a''" lib] a1
    by (simp add: n1 urlparse_py_def split: option.splits)
  have n2: "netloc (urlparse ''https://pubs.acs.org/doi/10.1021/a'') = ''pubs.acs.org''"
    by code_simp
  have a2: "list_all isascii ''pubs.acs.org''" by code_simp
  have p2: "urlsplit_ValueError lib ''https://pubs.acs.org/doi/10.1021/a'' = None"
    using urlparse_py_plain [of "''https://pubs.acs.org/doi/10.1021/a''" lib] a2
    by (simp add: n2 urlparse_py_def split: option.splits)
  have d1: "dict_get publisher_map ''pubs.acs.org:443'' ''Unknown'' = ''Unknown''"
    by code_simp
  have d2: "dict_get publisher_map ''pubs.acs.org'' ''Unknown'' = ''ACS''"
    by code_simp
  show ?thesis
    by (simp add: doi_to_url_py_lookup [OF _ p1] doi_to_url_py_lookup [OF _ p2] n1 n2 d1 d2)
qed

section \<open>The loop of the Batch Processor\<close>












subsection \<open>The four ways an iteration can end\<close>

lemma process_doi_resolve_failed:
  assumes "prefix ''Error'' (fst (doi_to_url (http_reply r) d))"
  shows "process_doi r wt px fv d =
           (\<lparr>doi = d, url = fst (doi_to_url (http_reply r) d),
             publisher = snd (doi_to_url (http_reply r) d), proxied_url = None,
             status = ''resolve_failed'', actions = [], error = None\<rparr>,
            fv, [RequestsGet (''https://doi.org/'' @ d)])"
  using assms by (simp add: process_doi_def Let_def case_prod_beta)

lemma process_doi_proxy_error:
  assumes "\<not> prefix ''Error'' (fst (doi_to_url (http_reply r) d))"
    and "select_proxy px (fst (doi_to_url (http_reply r) d)) = Raises e"
  shows "process_doi r wt px fv d =
           (\<lparr>doi = d, url = fst (doi_to_url (http_reply r) d),
             publisher = snd (doi_to_url (http_reply r) d), proxied_url = None,
             status = ''proxy_error'', actions = [],
             error = Some (''proxy function error: '' @ e)\<rparr>,
            fv, [RequestsGet (''https://doi.org/'' @ d)])"
  using assms by (simp add: process_doi_def Let_def case_prod_beta)

lemma process_doi_navigation_error:
  assumes "\<not> prefix ''Error'' (fst (doi_to_url (http_reply r) d))"
    and "select_proxy px (fst (doi_to_url (http_reply r) d)) = Returns p"
    and "get_reply r p = Raises e"
  shows "process_doi r wt px fv d =
           (\<lparr>doi = d, url = fst (doi_to_url (http_reply r) d),
             publisher = snd (doi_to_url (http_reply r) d), proxied_url = Some p,
             status = ''navigation_error'', actions = [], error = Some e\<rparr>,
            fv, [RequestsGet (''https://doi.org/'' @ d), DriverGet p])"
  using assms by (simp add: process_doi_def Let_def case_prod_beta)

lemma process_doi_navigated:
  assumes "\<not> prefix ''Error'' (fst (doi_to_url (http_reply r) d))"
    and "select_proxy px (fst (doi_to_url (http_reply r) d)) = Returns p"
    and "get_reply r p = Returns x"
  shows "process_doi r wt px fv d =
           (let sw = publisher_switch r
                       \<lparr>doi = d, url = fst (doi_to_url (http_reply r) d),
                        publisher = snd (doi_to_url (http_reply r) d), proxied_url = Some p,
                        status = [], actions = [], error = None\<rparr>
            in (fst sw, False,
                [RequestsGet (''https://doi.org/'' @ d), DriverGet p,
                 if fv then Sleep 20 else WaitForPageLoad wt] @ snd sw))"
  using assms by (simp add: process_doi_def Let_def case_prod_beta)









subsection \<open>Facts about the example worlds\<close>

lemma fst_doi_to_url_acs: "fst (doi_to_url (http_reply reply_acs) ''10.1021/a'') = ''https://pubs.acs.org/doi/10.1021/a''"
  by code_simp







section \<open>The Batch Processor with exceptions\<close>

subsection \<open>What the handlers see\<close>

text \<open>
  Where a function with exceptions returns, it returns what the function of the
  handlers' view returns on what the handlers see of the world.
\<close>

lemma doi_to_url_py_reply_of:
  assumes "doi_to_url_py lib (http_call r) d = Returned res"
  shows "doi_to_url (http_reply (reply_of r)) d = res"
  using assms
  by (auto simp: doi_to_url_py_def doi_to_url_def reply_of_def urlparse_py_def Let_def
        split: call.splits http_outcome.splits option.splits)

lemma doi_to_url_py_accepted:
  assumes "doi_to_url_py lib rg d = Returned (u, pub)" and "\<not> prefix ''Error'' u"
  shows "urlsplit_ValueError lib u = None"
  using assms
  by (auto simp: doi_to_url_py_def urlparse_py_def Let_def
        split: call.splits http_outcome.splits option.splits)

lemma is_none_proxy_of [simp]: "is_none (proxy_of px) = is_none px"
  by (cases px) (simp_all add: is_none_def proxy_of_def)

lemma eq_str_proxy_of [simp]: "eq_str (proxy_of px) s = eq_str px s"
  by (cases px) (simp_all add: eq_str_def proxy_of_def)

lemma select_proxy_py_caught:
  assumes "urlsplit_ValueError lib u = None"
  shows "select_proxy (proxy_of px) u = caught (select_proxy_py lib px u)"
  using assms
  by (cases px)
     (simp_all add: select_proxy_def select_proxy_py_def convert_to_hku_proxy_py_accepted
        caught_def proxy_of_def is_none_def eq_str_def)


lemma except_Exception_caught:
  "except_Exception c = Returned out \<Longrightarrow> caught c = out"
  by (auto simp: except_Exception_def caught_def split: call.splits exception.splits)

lemma except_Exception_Returned_iff:
  "(\<exists>out. except_Exception c = Returned out)
     \<longleftrightarrow> (case c of Returned _ \<Rightarrow> True | Raised x \<Rightarrow> is_Exception x)"
  by (auto simp: except_Exception_def is_Exception_def split: call.splits exception.splits)

lemma publisher_switch_py_caught:
  assumes "publisher_switch_py r rec = Returned sw"
  shows "publisher_switch (reply_of r) rec = sw"
  using assms
  by (auto simp: publisher_switch_py_def publisher_switch_def reply_of_def
        dest!: except_Exception_caught split: if_splits call.splits outcome.splits option.splits)

lemma publisher_switch_py_Returned_iff:
  "(\<exists>sw. publisher_switch_py r rec = Returned sw) \<longleftrightarrow>
     (if publisher rec = ''ACS''
      then (case find_call r ''article__btn__secondary--pdf'' of
              Raised x \<Rightarrow> is_Exception x
            | Returned _ \<Rightarrow>
                (case click_call r of
                   Raised x \<Rightarrow> is_Exception x
                 | Returned _ \<Rightarrow> sleep_interrupted r = None))
      else True)"
  by (auto simp: publisher_switch_py_def except_Exception_def is_Exception_def
        split: call.splits exception.splits option.splits)



subsection \<open>The ways an iteration can end\<close>

lemma process_doi_py_resolve_failed:
  assumes "doi_to_url_py lib (http_call r) d = Returned (u, pub)" and "prefix ''Error'' u"
  shows "process_doi_py lib r wt px fv d =
           Returned (\<lparr>doi = d, url = u, publisher = pub, proxied_url = None,
                       status = ''resolve_failed'', actions = [], error = None\<rparr>,
                     fv, [RequestsGet (''https://doi.org/'' @ d)])"
  using assms by (simp add: process_doi_py_def Let_def)

lemma process_doi_py_proxy_error:
  assumes "doi_to_url_py lib (http_call r) d = Returned (u, pub)" and "\<not> prefix ''Error'' u"
    and "select_proxy_py lib px u = Raised (Exception e)"
  shows "process_doi_py lib r wt px fv d =
           Returned (\<lparr>doi = d, url = u, publisher = pub, proxied_url = None,
                       status = ''proxy_error'', actions = [],
                       error = Some (''proxy function error: '' @ e)\<rparr>,
                     fv, [RequestsGet (''https://doi.org/'' @ d)])"
  using assms by (simp add: process_doi_py_def Let_def except_Exception_def)

lemma process_doi_py_navigation_error:
  assumes "doi_to_url_py lib (http_call r) d = Returned (u, pub)" and "\<not> prefix ''Error'' u"
    and "select_proxy_py lib px u = Returned p"
    and "get_call r p = Raised (Exception e)"
  shows "process_doi_py lib r wt px fv d =
           Returned (\<lparr>doi = d, url = u, publisher = pub, proxied_url = Some p,
                       status = ''navigation_error'', actions = [], error = Some e\<rparr>,
                     fv, [RequestsGet (''https://doi.org/'' @ d), DriverGet p])"
  using assms by (simp add: process_doi_py_def Let_def except_Exception_def)

lemma process_doi_py_navigated:
  assumes "doi_to_url_py lib (http_call r) d = Returned (u, pub)" and "\<not> prefix ''Error'' u"
    and "select_proxy_py lib px u = Returned p"
    and "get_call r p = Returned x"
    and "pause_interrupted r = None"
  shows "process_doi_py lib r wt px fv d =
           (case publisher_switch_py r
                   \<lparr>doi = d, url = u, publisher = pub, proxied_url = Some p,
                    status = [], actions = [], error = None\<rparr> of
              Raised y \<Rightarrow> Raised y
            | Returned sw \<Rightarrow>
                Returned (fst sw, False,
                  [RequestsGet (''https://doi.org/'' @ d), DriverGet p,
                   if fv then Sleep 20 else WaitForPageLoad wt] @ snd sw))"
  using assms by (simp add: process_doi_py_def Let_def except_Exception_def split: call.splits)

lemma process_doi_py_propagates:
  assumes "doi_to_url_py lib (http_call r) d = Returned (u, pub)" and "\<not> prefix ''Error'' u"
  shows "select_proxy_py lib px u = Raised (BaseException e) \<Longrightarrow>
           process_doi_py lib r wt px fv d = Raised (BaseException e)"
    and "select_proxy_py lib px u = Returned p \<Longrightarrow> get_call r p = Raised (BaseException e) \<Longrightarrow>
           process_doi_py lib r wt px fv d = Raised (BaseException e)"
    and "select_proxy_py lib px u = Returned p \<Longrightarrow> get_call r p = Returned x \<Longrightarrow>
           pause_interrupted r = Some e \<Longrightarrow>
           process_doi_py lib r wt px fv d = Raised (BaseException e)"
  using assms by (simp_all add: process_doi_py_def Let_def except_Exception_def)

text \<open>
  An iteration returns exactly when its failures are caught, and then it returns what the
  iteration of the handlers' view returns.
\<close>

lemma failures_caught_iff:
  "failures_caught lib r px d \<longleftrightarrow> (\<exists>it. process_doi_py lib r wt px fv d = Returned it)"
proof (cases "doi_to_url_py lib (http_call r) d")
  case (Raised x)
  then show ?thesis by (simp add: failures_caught_def process_doi_py_def)
next
  case (Returned res)
  obtain u pub where res: "res = (u, pub)" by (cases res)
  note dr = Returned [unfolded res]
  show ?thesis
  proof (cases "prefix ''Error'' u")
    case True
    then show ?thesis
      by (simp add: failures_caught_def dr process_doi_py_resolve_failed [OF dr True])
  next
    case False
    show ?thesis
    proof (cases "select_proxy_py lib px u")
      case sel: (Raised x)
      then show ?thesis using False
        by (cases x)
           (simp_all add: failures_caught_def dr process_doi_py_proxy_error [OF dr False]
              process_doi_py_propagates(1) [OF dr False] is_Exception_def)
    next
      case sel: (Returned p)
      show ?thesis
      proof (cases "get_call r p")
        case get: (Raised x)
        then show ?thesis using False sel
          by (cases x)
             (simp_all add: failures_caught_def dr
                process_doi_py_navigation_error [OF dr False sel]
                process_doi_py_propagates(2) [OF dr False sel] is_Exception_def)
      next
        case get: (Returned y)
        show ?thesis
        proof (cases "pause_interrupted r")
          case (Some e)
          then show ?thesis using False sel get
            by (simp add: failures_caught_def dr
                  process_doi_py_propagates(3) [OF dr False sel get Some])
        next
          case None
          have "failures_caught lib r px d \<longleftrightarrow>
                  (\<exists>sw. publisher_switch_py r
                          \<lparr>doi = d, url = u, publisher = pub, proxied_url = Some p,
                           status = [], actions = [], error = None\<rparr> = Returned sw)"
            unfolding publisher_switch_py_Returned_iff
            using False sel get None by (simp add: failures_caught_def dr)
          then show ?thesis
            by (auto simp: process_doi_py_navigated [OF dr False sel get None] split: call.splits)
        qed
      qed
    qed
  qed
qed

lemma process_doi_py_reply_of:
  assumes "process_doi_py lib r wt px fv d = Returned it"
  shows "it = process_doi (reply_of r) wt (proxy_of px) fv d"
proof -
  from assms obtain res where dr0: "doi_to_url_py lib (http_call r) d = Returned res"
    by (auto simp: process_doi_py_def split: call.splits)
  obtain u pub where res: "res = (u, pub)" by (cases res)
  note dr = dr0 [unfolded res]
  have pure: "doi_to_url (http_reply (reply_of r)) d = (u, pub)"
    using dr by (rule doi_to_url_py_reply_of)
  show ?thesis
  proof (cases "prefix ''Error'' u")
    case True
    with assms show ?thesis
      by (simp add: process_doi_py_resolve_failed [OF dr True] process_doi_resolve_failed pure)
  next
    case False
    have ok: "urlsplit_ValueError lib u = None"
      using dr False by (rule doi_to_url_py_accepted)
    note sp = select_proxy_py_caught [OF ok, of px]
    show ?thesis
    proof (cases "select_proxy_py lib px u")
      case sel: (Raised x)
      show ?thesis
      proof (cases x)
        case (Exception e)
        have "select_proxy (proxy_of px) u = Raises e"
          by (simp add: sp sel Exception caught_def)
        with assms False show ?thesis
          by (simp add: process_doi_py_proxy_error [OF dr False sel [unfolded Exception]]
                process_doi_proxy_error pure)
      next
        case (BaseException e)
        with assms show ?thesis
          by (simp add: process_doi_py_propagates(1) [OF dr False sel [unfolded BaseException]])
      qed
    next
      case sel: (Returned p)
      have psel: "select_proxy (proxy_of px) u = Returns p"
        by (simp add: sp sel caught_def)
      show ?thesis
      proof (cases "get_call r p")
        case get: (Raised x)
        show ?thesis
        proof (cases x)
          case (Exception e)
          have "get_reply (reply_of r) p = Raises e"
            by (simp add: reply_of_def get Exception caught_def)
          with assms False psel show ?thesis
            by (simp add: process_doi_py_navigation_error [OF dr False sel get [unfolded Exception]]
                  process_doi_navigation_error pure)
        next
          case (BaseException e)
          with assms show ?thesis
            by (simp add: process_doi_py_propagates(2) [OF dr False sel get [unfolded BaseException]])
        qed
      next
        case get: (Returned y)
        have pget: "get_reply (reply_of r) p = Returns y"
          by (simp add: reply_of_def get caught_def)
        have pause: "pause_interrupted r = None"
        proof (cases "pause_interrupted r")
          case (Some e)
          with assms show ?thesis
            by (simp add: process_doi_py_propagates(3) [OF dr False sel get Some])
        qed simp
        from assms obtain sw where
          sw: "publisher_switch_py r
                 \<lparr>doi = d, url = u, publisher = pub, proxied_url = Some p,
                  status = [], actions = [], error = None\<rparr> = Returned sw"
          and it: "it = (fst sw, False,
                  [RequestsGet (''https://doi.org/'' @ d), DriverGet p,
                   if fv then Sleep 20 else WaitForPageLoad wt] @ snd sw)"
          by (auto simp: process_doi_py_navigated [OF dr False sel get pause] split: call.splits)
        have "publisher_switch (reply_of r)
                 \<lparr>doi = d, url = u, publisher = pub, proxied_url = Some p,
                  status = [], actions = [], error = None\<rparr> = sw"
          using sw by (rule publisher_switch_py_caught)
        with False psel pget it show ?thesis
          by (simp add: process_doi_navigated [where p = p and x = y] pure Let_def)
      qed
    qed
  qed
qed


subsection \<open>The loop\<close>

lemma process_dois_loop_py_Returned:
  assumes "process_dois_loop_py lib w wt px ds st = Returned st'"
  shows "st' = process_dois_loop (\<lambda>i. reply_of (w i)) wt (proxy_of px) ds st
       \<and> (\<forall>i<length ds. failures_caught lib (w i) px (ds ! i))"
  using assms
proof (induction ds arbitrary: w st)
  case Nil
  then show ?case by simp
next
  case (Cons d ds)
  from Cons.prems obtain it where
    it: "process_doi_py lib (w 0) wt px (first_visit st) d = Returned it"
    and rest: "process_dois_loop_py lib (\<lambda>i. w (Suc i)) wt px ds
            \<lparr>results = (results st)(d \<mapsto> fst it), first_visit = fst (snd it),
             log = log st @ [(fst it, snd (snd it))]\<rparr> = Returned st'"
    by (auto split: call.splits)
  have pit: "it = process_doi (reply_of (w 0)) wt (proxy_of px) (first_visit st) d"
    using it by (rule process_doi_py_reply_of)
  have fc0: "failures_caught lib (w 0) px d"
    using it failures_caught_iff [of lib "w 0" px d wt "first_visit st"] by blast
  from Cons.IH [OF rest] have
    eq: "st' = process_dois_loop (\<lambda>i. reply_of (w (Suc i))) wt (proxy_of px) ds
            \<lparr>results = (results st)(d \<mapsto> fst it), first_visit = fst (snd it),
             log = log st @ [(fst it, snd (snd it))]\<rparr>"
    and fcs: "\<forall>i<length ds. failures_caught lib (w (Suc i)) px (ds ! i)"
    by blast+
  have "st' = process_dois_loop (\<lambda>i. reply_of (w i)) wt (proxy_of px) (d # ds) st"
    unfolding eq by (simp add: pit [symmetric] case_prod_beta Let_def)
  moreover have "\<forall>i<length (d # ds). failures_caught lib (w i) px ((d # ds) ! i)"
    using fc0 fcs by (auto simp: less_Suc_eq_0_disj)
  ultimately show ?case by blast
qed

lemma process_dois_loop_py_returns:
  assumes "\<forall>i<length ds. failures_caught lib (w i) px (ds ! i)"
  shows "\<exists>st'. process_dois_loop_py lib w wt px ds st = Returned st'"
  using assms
proof (induction ds arbitrary: w st)
  case Nil
  then show ?case by simp
next
  case (Cons d ds)
  from Cons.prems have "failures_caught lib (w 0) px d" by auto
  then obtain it where
    it: "process_doi_py lib (w 0) wt px (first_visit st) d = Returned it"
    using failures_caught_iff [of lib "w 0" px d wt "first_visit st"] by blast
  from Cons.prems have "\<forall>i<length ds. failures_caught lib (w (Suc i)) px (ds ! i)" by auto
  from Cons.IH [OF this] show ?case by (simp add: it)
qed

text \<open>
  A run with exceptions that returns is the run of the handlers' view: what is proved of
  \<open>run_batch\<close> holds of every run of \<open>run_batch_py\<close> that returns.
\<close>

lemma run_batch_py_Returned:
  assumes "run_batch_py lib w dois wt px = Returned st"
  shows "st = run_batch (\<lambda>i. reply_of (w i)) dois wt (proxy_of px)"
    and "\<forall>i<length dois. failures_caught lib (w i) px (dois ! i)"
  using process_dois_loop_py_Returned [OF assms [unfolded run_batch_py_def]]
  by (simp_all add: run_batch_def)

lemma run_batch_py_returns:
  assumes "\<forall>i<length dois. failures_caught lib (w i) px (dois ! i)"
  shows "run_batch_py lib w dois wt px
           = Returned (run_batch (\<lambda>i. reply_of (w i)) dois wt (proxy_of px))"
proof -
  from process_dois_loop_py_returns [OF assms] obtain st where
    st: "run_batch_py lib w dois wt px = Returned st"
    unfolding run_batch_py_def by blast
  with run_batch_py_Returned(1) [OF st] show ?thesis by simp
qed


subsection \<open>Facts about the example worlds with exceptions\<close>





lemma doi_to_url_py_acs:
  "doi_to_url_py lenient (http_call world_acs) ''10.1021/a''
     = Returned (''https://pubs.acs.org/doi/10.1021/a'', ''ACS'')"
  by code_simp

lemma convert_to_hku_proxy_py_acs:
  "convert_to_hku_proxy_py lenient ''https://pubs.acs.org/doi/10.1021/a''
     = Returned ''https://pubs-acs-org.eproxy.lib.hku.hk/doi/10.1021/a''"
  by code_simp

subsection \<open>What leaves \<open>process_dois\<close>\<close>

text \<open>
  \<open>process_dois\<close> returns exactly when the failures of every iteration are caught.
  An exception that leaves \<open>doi_to_url\<close> leaves \<open>process_dois\<close>: the
  \<^verbatim>\<open>ValueError\<close> of \<^verbatim>\<open>urlparse\<close> on a final URL with a bracket in its user
  information, and whatever the HTTP client raises that is no \<^verbatim>\<open>RequestException\<close>.
  So does the \<^verbatim>\<open>KeyboardInterrupt\<close> of an interrupt during the pause after a
  navigation.
\<close>

lemma process_dois_Returned_iff:
  "(\<exists>res. process_dois lib w dois wt px = Returned res)
     \<longleftrightarrow> (\<forall>i<length dois. failures_caught lib (w i) px (dois ! i))"
proof
  assume "\<exists>res. process_dois lib w dois wt px = Returned res"
  then obtain st where "run_batch_py lib w dois wt px = Returned st"
    by (auto simp: process_dois_def split: call.splits)
  then show "\<forall>i<length dois. failures_caught lib (w i) px (dois ! i)"
    by (rule run_batch_py_Returned(2))
next
  assume "\<forall>i<length dois. failures_caught lib (w i) px (dois ! i)"
  from run_batch_py_returns [OF this] show "\<exists>res. process_dois lib w dois wt px = Returned res"
    by (simp add: process_dois_def)
qed

lemma process_dois_resolver_raises:
  "process_dois lib
     (\<lambda>_. world_acs\<lparr>http_call := (\<lambda>_. Returned (Response ''http://u[@127.0.0.1:80/ok''))\<rparr>)
     [''10.1021/a'', ''10.1021/b''] 10 PyNone
     = Raised (Exception ''Invalid IPv6 URL'')"
proof -
  have "urlsplit ''http://u[@127.0.0.1:80/ok'' = (''http'', ''u[@127.0.0.1:80'', ''/ok'', [], [])"
    by code_simp
  then have "urlsplit_ValueError lib ''http://u[@127.0.0.1:80/ok'' = Some ''Invalid IPv6 URL''"
    by (simp add: urlsplit_ValueError_def)
  then show ?thesis
    by (simp add: process_dois_def run_batch_py_def process_doi_py_def doi_to_url_py_def
          urlparse_py_def)
qed

lemma process_dois_client_raises:
  "process_dois lib (\<lambda>_. world_acs\<lparr>http_call := (\<lambda>_. Raised (Exception ''UnicodeDecodeError''))\<rparr>)
     [''10.1021/a'', ''10.1021/b''] 10 px
     = Raised (Exception ''UnicodeDecodeError'')"
  by (simp add: process_dois_def run_batch_py_def process_doi_py_def doi_to_url_py_def)

lemma process_dois_pause_interrupted:
  "process_dois lenient (\<lambda>_. world_acs\<lparr>pause_interrupted := Some []\<rparr>)
     [''10.1021/a'', ''10.1021/b''] 10 PyNone
     = Raised (BaseException [])"
proof -
  have dr: "doi_to_url_py lenient (http_call (world_acs\<lparr>pause_interrupted := Some []\<rparr>)) ''10.1021/a''
     = Returned (''https://pubs.acs.org/doi/10.1021/a'', ''ACS'')"
    using doi_to_url_py_acs by (simp add: world_acs_def)
  have sel: "select_proxy_py lenient PyNone ''https://pubs.acs.org/doi/10.1021/a''
     = Returned ''https://pubs-acs-org.eproxy.lib.hku.hk/doi/10.1021/a''"
    by (simp add: select_proxy_py_def is_none_def convert_to_hku_proxy_py_acs)
  have get: "get_call (world_acs\<lparr>pause_interrupted := Some []\<rparr>)
       ''https://pubs-acs-org.eproxy.lib.hku.hk/doi/10.1021/a'' = Returned ()"
    by (simp add: world_acs_def)
  have "process_doi_py lenient (world_acs\<lparr>pause_interrupted := Some []\<rparr>) 10 PyNone True ''10.1021/a''
     = Raised (BaseException [])"
    using dr _ sel get by (rule process_doi_py_propagates(3)) simp_all
  then show ?thesis
    by (simp add: process_dois_def run_batch_py_def)
qed

section \<open>Properties of the Batch Processor\<close>















end
